theory Spec2Isabelle
  imports Complex_Main
begin

section \<open>Session registry (Run.py)\<close>

text \<open>
  The module keeps one dictionary \<open>_sessions_by_class\<close>, from class id to a session
  dictionary with the four keys \<open>is_active\<close>, \<open>session_name\<close>, \<open>attendance_records\<close>
  and \<open>start_time\<close>. Every function body runs under the module's lock, so a call is
  one step on that dictionary; the model passes the dictionary in and returns it.

  A \<open>datetime\<close> is modelled by its number of microseconds since a fixed epoch, the
  resolution of Python's \<open>datetime\<close>. The clock reading \<open>datetime.now()\<close> is an argument
  of the functions that read it. Counters are Python integers.
\<close>

type_synonym datetime = int

record session =
  is_active :: bool
  session_name :: "string option"
  attendance_records :: "string \<rightharpoonup> int"
  start_time :: "datetime option"

type_synonym sessions = "string \<rightharpoonup> session"

text \<open>The dictionary that \<open>stop_session\<close> serialises as its answer.\<close>

record summary =
  s_session_active :: bool
  s_session_name :: "string option"
  s_class_id :: string
  s_attendance_records :: "string \<rightharpoonup> int"
  s_start_time :: "datetime option"
  s_end_time :: datetime
  s_duration_seconds :: int

text \<open>
  The JSON bodies the functions answer with. \<open>jsonify\<close> serialises its argument when it
  is called, so a body is a value: it shares nothing with the registry afterwards.
  A response is the body with its HTTP status code (200 where the source gives none).
\<close>

datatype body =
    Class_id_required
  | Already_active string
  | Started string string datetime
  | Inactive
  | Summary summary
  | Recorded "string \<rightharpoonup> int"
  | ClassId_required
  | Firebase_not_initialized
  | Failed_to_start

type_synonym response = "body \<times> nat"

text \<open>The slot that \<open>stop_session\<close> and \<open>clear_session_data\<close> write.\<close>

definition cleared :: session where
  "cleared = \<lparr>is_active = False, session_name = None,
              attendance_records = Map.empty, start_time = None\<rparr>"

text \<open>\<open>sess and sess.get("is_active")\<close>, for the value of \<open>_sessions_by_class.get(class_id)\<close>.\<close>

definition active :: "session option \<Rightarrow> bool" where
  "active s = (case s of None \<Rightarrow> False | Some sess \<Rightarrow> is_active sess)"

text \<open>\<open>session_name or f"{class_id}_session"\<close>: \<open>None\<close> and the empty string are falsy.\<close>

definition name_or_default :: "string option \<Rightarrow> string \<Rightarrow> string" where
  "name_or_default name class_id =
     (case name of
        None \<Rightarrow> class_id @ ''_session''
      | Some n \<Rightarrow> if n = [] then class_id @ ''_session'' else n)"

definition start_session ::
  "string \<Rightarrow> string option \<Rightarrow> datetime \<Rightarrow> sessions \<Rightarrow> response \<times> sessions" where
  "start_session class_id name now S =
     (if class_id = [] then ((Class_id_required, 400), S)
      else if active (S class_id) then ((Already_active class_id, 409), S)
      else
        let s = \<lparr>is_active = True,
                 session_name = Some (name_or_default name class_id),
                 attendance_records = Map.empty,
                 start_time = Some now\<rparr>
        in ((Started class_id (name_or_default name class_id) now, 200),
            S(class_id \<mapsto> s)))"

text \<open>
  \<open>int((end_time - start_time).total_seconds())\<close>: the difference in microseconds,
  as seconds, truncated towards zero.
\<close>

definition whole_seconds :: "int \<Rightarrow> int" where
  "whole_seconds d = (if 0 \<le> d then d div 1000000 else - ((- d) div 1000000))"

definition stop_session :: "string \<Rightarrow> datetime \<Rightarrow> sessions \<Rightarrow> response \<times> sessions" where
  "stop_session class_id now S =
     (if class_id = [] then ((Class_id_required, 400), S)
      else case S class_id of
        None \<Rightarrow> ((Inactive, 400), S)
      | Some sess \<Rightarrow>
          if \<not> is_active sess then ((Inactive, 400), S)
          else
            let end_time = now;
                duration_seconds =
                  (case start_time sess of
                     Some st \<Rightarrow> whole_seconds (end_time - st)
                   | None \<Rightarrow> 0);
                summary = \<lparr>s_session_active = False,
                           s_session_name = session_name sess,
                           s_class_id = class_id,
                           s_attendance_records = attendance_records sess,
                           s_start_time = start_time sess,
                           s_end_time = end_time,
                           s_duration_seconds = duration_seconds\<rparr>
            in ((Summary summary, 200), S(class_id \<mapsto> cleared)))"

text \<open>The loop of \<open>record_recognition_results_for_class\<close> over the recognised names.\<close>

fun count_names :: "string list \<Rightarrow> (string \<rightharpoonup> int) \<Rightarrow> (string \<rightharpoonup> int)" where
  "count_names [] records = records"
| "count_names (name # names) records =
     count_names names
       (if name \<noteq> ''Unknown''
        then records(name \<mapsto> (case records name of None \<Rightarrow> 0 | Some c \<Rightarrow> c) + 1)
        else records)"

definition record_recognition_results_for_class ::
  "string list \<Rightarrow> string \<Rightarrow> sessions \<Rightarrow> response \<times> sessions" where
  "record_recognition_results_for_class recognized_names class_id S =
     (if class_id = [] then ((Class_id_required, 400), S)
      else case S class_id of
        None \<Rightarrow> ((Inactive, 403), S)
      | Some sess \<Rightarrow>
          if \<not> is_active sess then ((Inactive, 403), S)
          else
            let records = count_names recognized_names (attendance_records sess)
            in ((Recorded records, 200),
                S(class_id \<mapsto> sess\<lparr>attendance_records := records\<rparr>)))"

text \<open>\<open>if class_id:\<close> is false for \<open>None\<close> and for the empty string.\<close>

definition clear_session_data :: "string option \<Rightarrow> sessions \<Rightarrow> sessions" where
  "clear_session_data class_id S =
     (case class_id of
        None \<Rightarrow> Map.empty
      | Some k \<Rightarrow> if k = [] then Map.empty else S(k \<mapsto> cleared))"

subsection \<open>Sequences of calls\<close>

datatype call =
    Start string "string option" datetime
  | Stop string datetime
  | Record "string list" string
  | Clear "string option"

fun step :: "sessions \<Rightarrow> call \<Rightarrow> sessions" where
  "step S (Start class_id name now) = snd (start_session class_id name now S)"
| "step S (Stop class_id now) = snd (stop_session class_id now S)"
| "step S (Record names class_id) = snd (record_recognition_results_for_class names class_id S)"
| "step S (Clear class_id) = clear_session_data class_id S"

text \<open>The registry after a sequence of calls on the dictionary the module starts with.\<close>

definition run :: "call list \<Rightarrow> sessions" where
  "run calls = foldl step Map.empty calls"

section \<open>The start-session route (app.py)\<close>

text \<open>
  The route reads \<open>classId\<close> from the request's JSON body; \<open>data\<close> is \<open>None\<close> when
  the body has no JSON object, where \<open>data.get\<close> raises and the handler answers 500.
  \<open>firebase\<close> says whether \<open>firebase_manager\<close> is set.
\<close>

definition app_start_session ::
  "(string \<rightharpoonup> string) option \<Rightarrow> bool \<Rightarrow> datetime \<Rightarrow> sessions \<Rightarrow> response \<times> sessions" where
  "app_start_session data firebase now S =
     (case data of
        None \<Rightarrow> ((Failed_to_start, 500), S)
      | Some d \<Rightarrow>
          (case d ''classId'' of
             None \<Rightarrow> ((ClassId_required, 400), S)
           | Some class_id \<Rightarrow>
               if class_id = [] then ((ClassId_required, 400), S)
               else if \<not> firebase then ((Firebase_not_initialized, 500), S)
               else start_session class_id None now
                      (clear_session_data (Some class_id) S)))"

section \<open>Matching (main.py)\<close>

text \<open>
  \<open>find_match\<close> scans the embeddings dictionary in its iteration order, which is the
  order of insertion, so the dictionary is an association list. The similarity of two
  embeddings comes from a library (\<open>sklearn\<close>'s \<open>cosine_similarity\<close>) and is the
  argument \<open>sim\<close>; scores are real numbers.
\<close>

definition SIMILARITY_THRESHOLD :: real where
  "SIMILARITY_THRESHOLD = 6 / 10"

text \<open>The inner loop, over the stored embeddings of one person.\<close>

fun scan_person ::
  "('e \<Rightarrow> 'e \<Rightarrow> real) \<Rightarrow> 'e \<Rightarrow> string \<Rightarrow> 'e list \<Rightarrow> string \<times> real \<Rightarrow> string \<times> real" where
  "scan_person sim face_embedding person [] best = best"
| "scan_person sim face_embedding person (stored_embedding # rest) (best_match, best_score) =
     (let similarity = sim face_embedding stored_embedding
      in scan_person sim face_embedding person rest
           (if similarity > best_score then (person, similarity)
            else (best_match, best_score)))"

text \<open>The outer loop, over \<open>embeddings_db.items()\<close>.\<close>

fun scan_db ::
  "('e \<Rightarrow> 'e \<Rightarrow> real) \<Rightarrow> 'e \<Rightarrow> (string \<times> 'e list) list \<Rightarrow> string \<times> real \<Rightarrow> string \<times> real" where
  "scan_db sim face_embedding [] best = best"
| "scan_db sim face_embedding ((person, person_embeddings) # db) best =
     scan_db sim face_embedding db
       (scan_person sim face_embedding person person_embeddings best)"

definition find_match ::
  "('e \<Rightarrow> 'e \<Rightarrow> real) \<Rightarrow> 'e \<Rightarrow> (string \<times> 'e list) list \<Rightarrow> string \<times> real" where
  "find_match sim face_embedding embeddings_db =
     (case scan_db sim face_embedding embeddings_db (''Unknown'', 0) of
        (best_match, best_score) \<Rightarrow>
          if best_score \<ge> SIMILARITY_THRESHOLD then (best_match, best_score)
          else (''Unknown'', best_score))"

text \<open>
  The pairs of an identity and the similarity of one of its reference vectors to the
  query, in the order the scan meets them.
\<close>

definition scores ::
  "('e \<Rightarrow> 'e \<Rightarrow> real) \<Rightarrow> 'e \<Rightarrow> (string \<times> 'e list) list \<Rightarrow> (string \<times> real) list" where
  "scores sim face_embedding embeddings_db =
     concat (map (\<lambda>(person, person_embeddings).
                    map (\<lambda>e. (person, sim face_embedding e)) person_embeddings)
                 embeddings_db)"

text \<open>The best similarity over all reference vectors of all identities.\<close>

definition best_similarity ::
  "('e \<Rightarrow> 'e \<Rightarrow> real) \<Rightarrow> 'e \<Rightarrow> (string \<times> 'e list) list \<Rightarrow> real" where
  "best_similarity sim face_embedding embeddings_db =
     Max (set (map snd (scores sim face_embedding embeddings_db)))"

text \<open>The identity of the first pair, in scan order, that has the score \<open>m\<close>.\<close>

definition first_with :: "real \<Rightarrow> (string \<times> real) list \<Rightarrow> string" where
  "first_with m ps = fst (hd (filter (\<lambda>p. snd p = m) ps))"

text \<open>
  The library's cosine similarity of two vectors of one length: the dot product of the
  two vectors after each is divided by its Euclidean norm, a norm of zero counting as one.
\<close>

definition dot :: "real list \<Rightarrow> real list \<Rightarrow> real" where
  "dot x y = sum_list (map (\<lambda>(a, b). a * b) (zip x y))"

definition norm_or_one :: "real list \<Rightarrow> real" where
  "norm_or_one x = (if sqrt (dot x x) = 0 then 1 else sqrt (dot x x))"

definition cosine_similarity :: "real list \<Rightarrow> real list \<Rightarrow> real" where
  "cosine_similarity x y =
     dot (map (\<lambda>a. a / norm_or_one x) x) (map (\<lambda>b. b / norm_or_one y) y)"

section \<open>Attendance percentages\<close>

datatype py_error =
    ZeroDivisionError
  | FileExistsError
  | NotADirectoryError

subsection \<open>The stop-session route (app.py)\<close>

text \<open>The record handed to \<open>save_attendance_record\<close> for one student.\<close>

record attendance_record =
  student_id :: string
  status :: string
  presence_time :: int
  attendance_percentage :: real
  session_duration :: int

text \<open>The body of the loop over \<open>attendance_records.items()\<close>.\<close>

definition app_attendance_record :: "string \<Rightarrow> int \<Rightarrow> int \<Rightarrow> attendance_record" where
  "app_attendance_record student_name time duration =
     (let percentage =
            (if duration > 0 then (real_of_int time / real_of_int duration) * 100 else 0)
      in \<lparr>student_id = student_name,
          status = (if percentage \<ge> 25 then ''present'' else ''absent''),
          presence_time = time,
          attendance_percentage = percentage,
          session_duration = duration\<rparr>)"

definition app_attendance_records :: "(string \<times> int) list \<Rightarrow> int \<Rightarrow> attendance_record list" where
  "app_attendance_records items duration =
     map (\<lambda>(student_name, time). app_attendance_record student_name time duration) items"

subsection \<open>\<open>save_attendance\<close> (main.py)\<close>

definition ATTENDANCE_THRESHOLD :: real where
  "ATTENDANCE_THRESHOLD = 25 / 100"

text \<open>
  A row of the CSV file: name, presence, session length, percentage times 100, status.
  The presence of a person is a number of seconds, not necessarily whole.
\<close>

type_synonym csv_row = "string \<times> real \<times> int \<times> real \<times> string"

text \<open>
  The loop that writes the CSV rows. The division \<open>presence_time / session_length\<close>
  raises \<open>ZeroDivisionError\<close> when the session length is zero; the loop is outside
  the function's \<open>try\<close>, so the exception leaves the function.
\<close>

fun csv_rows :: "(string \<times> real) list \<Rightarrow> int \<Rightarrow> py_error + csv_row list" where
  "csv_rows [] session_length = Inr []"
| "csv_rows ((person, time) # attendance) session_length =
     (if session_length = 0 then Inl ZeroDivisionError
      else
        let percentage = time / real_of_int session_length;
            st = (if percentage \<ge> ATTENDANCE_THRESHOLD then ''Present'' else ''Absent'')
        in case csv_rows attendance session_length of
             Inl e \<Rightarrow> Inl e
           | Inr rows \<Rightarrow> Inr ((person, time, session_length, percentage * 100, st) # rows))"

text \<open>
  The records prepared for the document store, inside the \<open>try\<close>: an exception there is
  caught and nothing is stored (\<open>None\<close>).
\<close>

fun firebase_records :: "(string \<times> real) list \<Rightarrow> int \<Rightarrow> (string \<times> string \<times> real) list option" where
  "firebase_records [] session_length = Some []"
| "firebase_records ((person, time) # attendance) session_length =
     (if session_length = 0 then None
      else
        let percentage = time / real_of_int session_length;
            st = (if percentage \<ge> ATTENDANCE_THRESHOLD then ''present'' else ''absent'')
        in case firebase_records attendance session_length of
             None \<Rightarrow> None
           | Some records \<Rightarrow> Some ((person, st, percentage * 100) # records))"

definition save_attendance ::
  "(string \<times> real) list \<Rightarrow> int \<Rightarrow> bool \<Rightarrow>
     py_error + (csv_row list \<times> (string \<times> string \<times> real) list option)" where
  "save_attendance attendance session_length firebase =
     (case csv_rows attendance session_length of
        Inl e \<Rightarrow> Inl e
      | Inr rows \<Rightarrow>
          Inr (rows, if firebase then firebase_records attendance session_length else None))"

section \<open>Strings and paths\<close>

text \<open>
  Strings are taken over ASCII. Paths are compared as they are written: the model does
  not resolve \<open>.\<close>, \<open>..\<close>, repeated or trailing separators, or links.
\<close>

definition lower_char :: "char \<Rightarrow> char" where
  "lower_char c =
     (case map_of (zip ''ABCDEFGHIJKLMNOPQRSTUVWXYZ'' ''abcdefghijklmnopqrstuvwxyz'') c of
        None \<Rightarrow> c
      | Some l \<Rightarrow> l)"

definition lower :: "string \<Rightarrow> string" where
  "lower s = map lower_char s"

definition endswith :: "string \<Rightarrow> string \<Rightarrow> bool" where
  "endswith s suffix =
     (length suffix \<le> length s \<and> drop (length s - length suffix) s = suffix)"

text \<open>The characters that \<open>str.strip()\<close> removes, among ASCII.\<close>

definition is_space :: "char \<Rightarrow> bool" where
  "is_space c =
     (c \<in> set [CHR 0x09, CHR 0x0A, CHR 0x0B, CHR 0x0C, CHR 0x0D,
                CHR 0x1C, CHR 0x1D, CHR 0x1E, CHR 0x1F, CHR '' ''])"

definition strip :: "string \<Rightarrow> string" where
  "strip s = rev (dropWhile is_space (rev (dropWhile is_space s)))"

text \<open>\<open>s.replace(" ", "_")\<close>.\<close>

definition replace_spaces :: "string \<Rightarrow> string" where
  "replace_spaces s = map (\<lambda>c. if c = CHR '' '' then CHR ''_'' else c) s"

text \<open>\<open>os.path.join\<close> of two components.\<close>

definition path_join :: "string \<Rightarrow> string \<Rightarrow> string" where
  "path_join a b =
     (if b \<noteq> [] \<and> hd b = CHR ''/'' then b
      else if a = [] \<or> last a = CHR ''/'' then a @ b
      else a @ ''/'' @ b)"

text \<open>The decimal digits of a number, for \<open>f"{idx+1}"\<close>.\<close>

function digits :: "nat \<Rightarrow> string" where
  "digits n =
     (if n < 10 then [''0123456789'' ! n]
      else digits (n div 10) @ [''0123456789'' ! (n mod 10)])"
  by pat_completeness auto
termination
  by (relation "measure id") auto

section \<open>The embeddings store (EncodeGenerator.py)\<close>

text \<open>
  What the procedure reads of one image file: its name, the embedding that
  \<open>DeepFace.represent\<close> gives for it (\<open>None\<close> where the call raises), whether
  \<open>cv2.imread\<close> reads it, and the embedding of its \<open>i\<close>-th augmented copy
  (\<open>None\<close> where that call raises).
\<close>

record 'e image =
  img :: string
  original :: "'e option"
  readable :: bool
  augmented :: "nat \<Rightarrow> 'e option"

text \<open>An entry of \<open>os.listdir(db_path)\<close>: a plain file, or a folder with its images.\<close>

datatype 'e entry = Plain string | Folder string "'e image list"

fun entry_name :: "'e entry \<Rightarrow> string" where
  "entry_name (Plain name) = name"
| "entry_name (Folder name images) = name"

text \<open>
  The loop \<open>for i in range(N_AUG)\<close>; an exception ends the work on the image and
  keeps what was appended.
\<close>

fun encode_augmented :: "(nat \<Rightarrow> 'e option) \<Rightarrow> nat list \<Rightarrow> 'e list \<Rightarrow> 'e list" where
  "encode_augmented aug [] acc = acc"
| "encode_augmented aug (i # rest) acc =
     (case aug i of
        None \<Rightarrow> acc
      | Some e \<Rightarrow> encode_augmented aug rest (acc @ [e]))"

definition image_suffixes :: "string list" where
  "image_suffixes = [''.png'', ''.jpg'', ''.jpeg'', ''.bmp'', ''.tiff'']"

text \<open>The body of the loop over the images of one person.\<close>

definition encode_image :: "nat \<Rightarrow> 'e image \<Rightarrow> 'e list \<Rightarrow> 'e list" where
  "encode_image N_AUG im acc =
     (if \<not> list_ex (endswith (lower (img im))) image_suffixes then acc
      else case original im of
        None \<Rightarrow> acc
      | Some e \<Rightarrow>
          if \<not> readable im then acc @ [e]
          else encode_augmented (augmented im) [0..<N_AUG] (acc @ [e]))"

text \<open>The freshly derived sequence of reference vectors of one folder.\<close>

definition encode_person :: "nat \<Rightarrow> 'e image list \<Rightarrow> 'e list" where
  "encode_person N_AUG images = fold (encode_image N_AUG) images []"

text \<open>The body of the loop over the entries: only a folder not yet in the store is encoded.\<close>

fun process_entry ::
  "nat \<Rightarrow> 'e entry \<Rightarrow> (string \<times> 'e list) list \<Rightarrow> (string \<times> 'e list) list" where
  "process_entry N_AUG (Plain person) embeddings = embeddings"
| "process_entry N_AUG (Folder person images) embeddings =
     (if person \<in> set (map fst embeddings) then embeddings
      else embeddings @ [(person, encode_person N_AUG images)])"

text \<open>
  \<open>stored\<close> is the content of the embeddings file, \<open>None\<close> when there is no file;
  the result is the dictionary the procedure saves.
\<close>

definition manage_embeddings ::
  "'e entry list \<Rightarrow> nat \<Rightarrow> (string \<times> 'e list) list option \<Rightarrow> (string \<times> 'e list) list" where
  "manage_embeddings listing N_AUG stored =
     (let embeddings = (case stored of None \<Rightarrow> [] | Some db \<Rightarrow> db);
          embeddings = fold (process_entry N_AUG) listing embeddings;
          current_students = set (map entry_name listing)
      in filter (\<lambda>(name, vectors). name \<in> current_students) embeddings)"

section \<open>Student folders (Student\_Manage.py)\<close>

text \<open>The file system: the directories, and the files with their contents.\<close>

record fs =
  dirs :: "string set"
  files :: "string \<rightharpoonup> string"

definition STUDENTS_DIR :: string where
  "STUDENTS_DIR = ''Smart Attendance System/Images''"

definition path_exists :: "fs \<Rightarrow> string \<Rightarrow> bool" where
  "path_exists f p = (p \<in> dirs f \<or> p \<in> dom (files f))"

text \<open>The proper prefixes of a path that end before a separator.\<close>

definition parents :: "string \<Rightarrow> string list" where
  "parents p = map (\<lambda>i. take i p) (filter (\<lambda>i. 0 < i \<and> p ! i = CHR ''/'') [0..<length p])"

text \<open>The directory a path lies in.\<close>

definition dirname :: "string \<Rightarrow> string" where
  "dirname p = rev (tl (dropWhile (\<lambda>c. c \<noteq> CHR ''/'') (rev p)))"

definition makedirs :: "string \<Rightarrow> fs \<Rightarrow> py_error + fs" where
  "makedirs p f =
     (if path_exists f p then Inl FileExistsError
      else if list_ex (\<lambda>q. q \<in> dom (files f)) (parents p) then Inl NotADirectoryError
      else Inr (f\<lparr>dirs := dirs f \<union> set (parents p) \<union> {p}\<rparr>))"

text \<open>Opening a file for writing and writing it: \<open>None\<close> where \<open>open\<close> raises.\<close>

definition write_file :: "string \<Rightarrow> string \<Rightarrow> fs \<Rightarrow> fs option" where
  "write_file p content f =
     (if dirname p \<in> dirs f \<and> p \<notin> dirs f
      then Some (f\<lparr>files := (files f)(p \<mapsto> content)\<rparr>) else None)"

text \<open>Whether a path is \<open>p\<close> or lies below it.\<close>

definition below :: "string \<Rightarrow> string \<Rightarrow> bool" where
  "below p q = (q = p \<or> take (length p + 1) q = p @ ''/'')"

definition rmtree :: "string \<Rightarrow> fs \<Rightarrow> py_error + fs" where
  "rmtree p f =
     (if p \<in> dirs f
      then Inr \<lparr>dirs = {d \<in> dirs f. \<not> below p d},
               files = (\<lambda>q. if below p q then None else files f q)\<rparr>
      else Inl NotADirectoryError)"

datatype student_body =
    Already_exists string
  | Failed_to_save nat
  | Success string nat string
  | Removed string
  | Not_found string

text \<open>\<open>img_data.split(",")[1]\<close>, for a string that holds a comma.\<close>

definition after_comma :: "string \<Rightarrow> string" where
  "after_comma s =
     takeWhile (\<lambda>c. c \<noteq> CHR '','') (tl (dropWhile (\<lambda>c. c \<noteq> CHR '','') s))"

text \<open>
  The loop over \<open>enumerate(image_data_list)\<close>, from index \<open>idx\<close> on.
  \<open>b64decode\<close> is the library's decoder, \<open>None\<close> where it raises. Any exception in
  the body answers 500 and leaves the files written so far.
\<close>

fun save_images ::
  "(string \<Rightarrow> string option) \<Rightarrow> string \<Rightarrow> string \<Rightarrow> nat \<Rightarrow> string list \<Rightarrow> fs \<Rightarrow>
     (student_body \<times> nat) \<times> fs" where
  "save_images b64decode student_name student_folder idx [] f =
     ((Success student_name idx student_folder, 200), f)"
| "save_images b64decode student_name student_folder idx (img_data # rest) f =
     (let data = (if CHR '','' \<in> set img_data then after_comma img_data else img_data)
      in case b64decode data of
           None \<Rightarrow> ((Failed_to_save (idx + 1), 500), f)
         | Some img_bytes \<Rightarrow>
             (let filename =
                    path_join student_folder (student_name @ ''_'' @ digits (idx + 1) @ ''.jpg'')
              in (case write_file filename img_bytes f of
                    None \<Rightarrow> ((Failed_to_save (idx + 1), 500), f)
                  | Some f' \<Rightarrow>
                      save_images b64decode student_name student_folder (idx + 1) rest f')))"

text \<open>
  An exception of \<open>os.makedirs\<close> is not caught in the function: the result is then
  the exception, with the file system as it was.
\<close>

definition add_student_from_api ::
  "(string \<Rightarrow> string option) \<Rightarrow> string \<Rightarrow> string list \<Rightarrow> fs \<Rightarrow>
     (py_error + student_body \<times> nat) \<times> fs" where
  "add_student_from_api b64decode student_name image_data_list f =
     (let student_name = replace_spaces (strip student_name);
          student_folder = path_join STUDENTS_DIR student_name
      in case (if \<not> path_exists f STUDENTS_DIR then makedirs STUDENTS_DIR f else Inr f) of
           Inl e \<Rightarrow> (Inl e, f)
         | Inr f1 \<Rightarrow>
             if path_exists f1 student_folder
             then (Inr (Already_exists student_name, 400), f1)
             else (case makedirs student_folder f1 of
                     Inl e \<Rightarrow> (Inl e, f1)
                   | Inr f2 \<Rightarrow>
                       (case save_images b64decode student_name student_folder 0
                               image_data_list f2 of
                          (r, f3) \<Rightarrow> (Inr r, f3))))"

definition remove_student :: "string \<Rightarrow> fs \<Rightarrow> (py_error + student_body \<times> nat) \<times> fs" where
  "remove_student student_name f =
     (let student_name = replace_spaces (strip student_name);
          student_folder = path_join STUDENTS_DIR student_name
      in if path_exists f student_folder
         then case rmtree student_folder f of
                Inl e \<Rightarrow> (Inl e, f)
              | Inr f' \<Rightarrow> (Inr (Removed student_name, 200), f')
         else (Inr (Not_found student_name, 404), f))"

section \<open>Auxiliary notions and examples\<close>

text \<open>The invariant of a registry: an inactive slot has no counters and no start time.\<close>

definition inactive_empty :: "sessions \<Rightarrow> bool" where
  "inactive_empty S =
     (\<forall>k sess. S k = Some sess \<and> \<not> is_active sess \<longrightarrow>
        attendance_records sess = Map.empty \<and> start_time sess = None)"

text \<open>The two loops of \<open>find_match\<close> as one loop over the pairs of \<open>scores\<close>.\<close>

fun best_of :: "(string \<times> real) list \<Rightarrow> string \<times> real \<Rightarrow> string \<times> real" where
  "best_of [] best = best"
| "best_of ((person, similarity) # rest) (best_match, best_score) =
     best_of rest (if similarity > best_score then (person, similarity)
                   else (best_match, best_score))"

text \<open>A session of class CS101 in which alice and bob were each recognised once.\<close>

definition example_calls :: "call list" where
  "example_calls = [Start ''CS101'' None 0, Record [''alice'', ''bob''] ''CS101'']"

definition example_session :: session where
  "example_session =
     \<lparr>is_active = True, session_name = Some ''CS101_session'',
      attendance_records = [''alice'' \<mapsto> 1, ''bob'' \<mapsto> 1], start_time = Some 0\<rparr>"

definition example_request :: "string \<rightharpoonup> string" where
  "example_request = [''classId'' \<mapsto> ''CS101'']"

text \<open>
  An image whose original has the embedding 2 and whose first augmented copy has the
  embedding 3 (embeddings stand as numbers here), and a catalog with alice's folder.
\<close>

definition example_image :: "nat image" where
  "example_image = \<lparr>img = ''A.JPG'', original = Some 2, readable = True,
                     augmented = (\<lambda>i. if i = 0 then Some 3 else None)\<rparr>"

definition example_listing :: "nat entry list" where
  "example_listing = [Plain ''notes.txt'', Folder ''alice'' [example_image]]"

text \<open>A students directory that holds the folder of one student.\<close>

definition example_fs :: fs where
  "example_fs =
     \<lparr>dirs = {''Smart Attendance System'', ''Smart Attendance System/Images'',
              ''Smart Attendance System/Images/Ahmed_Ali''},
      files = [''Smart Attendance System/Images/Ahmed_Ali/Ahmed_Ali_1.jpg'' \<mapsto> ''x'']\<rparr>"

section \<open>Properties of the registry\<close>

lemmas registry_defs =
  start_session_def stop_session_def record_recognition_results_for_class_def
  clear_session_data_def active_def cleared_def name_or_default_def

lemma run_Nil: "run [] = Map.empty"
  by (simp add: run_def)

lemma run_snoc: "run (calls @ [c]) = step (run calls) c"
  by (simp add: run_def)

lemma run_append: "run (calls @ later) = foldl step (run calls) later"
  by (simp add: run_def)

text \<open>No call stores a session under the empty class id: each of them refuses it first.\<close>

lemma step_no_empty_key: "S [] = None \<Longrightarrow> step S c [] = None"
  by (cases c)
     (auto simp: start_session_def stop_session_def record_recognition_results_for_class_def
                 clear_session_data_def Let_def split: option.splits)

lemma run_no_empty_key: "run calls [] = None"
  by (induction calls rule: rev_induct) (simp_all add: run_Nil run_snoc step_no_empty_key)

lemma run_key_nonempty: "run calls k = Some sess \<Longrightarrow> k \<noteq> []"
  using run_no_empty_key [of calls] by auto

lemma example_run: "run example_calls = [''CS101'' \<mapsto> example_session]"
  by (simp add: example_calls_def example_session_def run_def registry_defs Let_def)

lemma step_inactive_empty: "inactive_empty S \<Longrightarrow> inactive_empty (step S c)"
  unfolding inactive_empty_def
  by (cases c)
     (auto simp: start_session_def stop_session_def record_recognition_results_for_class_def
                 clear_session_data_def cleared_def Let_def split: option.splits if_splits)

lemma run_inactive_empty: "inactive_empty (run calls)"
proof (induction calls rule: rev_induct)
  case Nil
  show ?case by (simp add: run_Nil inactive_empty_def)
next
  case (snoc c calls)
  then show ?case by (simp add: run_snoc step_inactive_empty)
qed

text \<open>
  Claim C1, as amended. In a registry reached by any sequence of calls, for a class id
  with an active session: \<open>start_session\<close> answers \<open>already_active\<close> (409) and leaves
  the registry as it is, whatever name is given. The start-session route, for a request
  with that class id and with the document store initialised, clears the slot before it
  calls \<open>start_session\<close>: it answers \<open>started\<close> and the slot holds a new session
  with no counters, the default name and the new start time.
\<close>

theorem start_twice_conflict_route_restart:
  assumes "run calls k = Some sess" and "is_active sess" and "d ''classId'' = Some k"
  shows "start_session k name now (run calls) = ((Already_active k, 409), run calls)
       \<and> app_start_session (Some d) True now (run calls) =
           ((Started k (k @ ''_session'') now, 200),
            (run calls)(k \<mapsto> \<lparr>is_active = True, session_name = Some (k @ ''_session''),
                                attendance_records = Map.empty, start_time = Some now\<rparr>))"
proof -
  have k: "k \<noteq> []" using assms(1) by (rule run_key_nonempty)
  show ?thesis
    using assms k
    by (simp add: app_start_session_def registry_defs Let_def)
qed

theorem start_twice_conflict_route_restart_witness:
  "run example_calls ''CS101'' = Some example_session
   \<and> is_active example_session
   \<and> example_request ''classId'' = Some ''CS101''
   \<and> start_session ''CS101'' (Some ''again'') 7000000 (run example_calls) =
       ((Already_active ''CS101'', 409), run example_calls)
   \<and> app_start_session (Some example_request) True 7000000 (run example_calls) =
       ((Started ''CS101'' ''CS101_session'' 7000000, 200),
        (run example_calls)
          (''CS101'' \<mapsto> \<lparr>is_active = True, session_name = Some ''CS101_session'',
                          attendance_records = Map.empty, start_time = Some 7000000\<rparr>))"
  using start_twice_conflict_route_restart
          [of example_calls "''CS101''" example_session example_request "Some ''again''" 7000000]
  by (simp add: example_run example_request_def example_session_def)

text \<open>
  Claim C1 as stated fails on the route: with alice and bob counted once each in the
  active session of CS101, a second request to start CS101 is answered \<open>started\<close>,
  not \<open>already_active\<close>, and the counters and the start time of the session are lost.
\<close>

theorem app_start_session_resets_active:
  "active (run example_calls ''CS101'')
   \<and> fst (app_start_session (Some example_request) True 7000000 (run example_calls))
       = (Started ''CS101'' ''CS101_session'' 7000000, 200)
   \<and> fst (app_start_session (Some example_request) True 7000000 (run example_calls))
       \<noteq> (Already_active ''CS101'', 409)
   \<and> map_option attendance_records (run example_calls ''CS101'')
       = Some [''alice'' \<mapsto> 1, ''bob'' \<mapsto> 1]
   \<and> map_option attendance_records
        (snd (app_start_session (Some example_request) True 7000000 (run example_calls))
           ''CS101'')
       = Some Map.empty
   \<and> map_option start_time (run example_calls ''CS101'') = Some (Some 0)
   \<and> map_option start_time
        (snd (app_start_session (Some example_request) True 7000000 (run example_calls))
           ''CS101'')
       = Some (Some 7000000)"
  by (simp add: example_run example_session_def example_request_def app_start_session_def
        registry_defs Let_def)

lemma count_names_eq:
  "count_names names records n =
     (if n \<noteq> ''Unknown'' \<and> n \<in> set names
      then Some ((case records n of None \<Rightarrow> 0 | Some c \<Rightarrow> c) + int (count_list names n))
      else records n)"
  by (induction names arbitrary: records) (auto split: option.splits)

lemma count_names_Unknown: "count_names (replicate m ''Unknown'') records = records"
  by (induction m) simp_all

text \<open>
  Claim C2, as amended: the sentinel is the string \<open>Unknown\<close>, with a capital, the
  one \<open>find_match\<close> answers. For an active session of a registry reached by any sequence
  of calls and for any sequence of names, a record call answers \<open>recorded\<close> and
  stores counters in which every name of the sequence other than \<open>Unknown\<close> has gained
  the number of its occurrences (a name without a counter counting from 0) and every other
  counter is as before; recording \<open>Unknown\<close> any number of times changes nothing.
\<close>

theorem record_counts_all_but_Unknown:
  assumes "run calls k = Some sess" and "is_active sess"
  shows "record_recognition_results_for_class names k (run calls) =
           ((Recorded (count_names names (attendance_records sess)), 200),
            (run calls)
              (k \<mapsto> sess\<lparr>attendance_records := count_names names (attendance_records sess)\<rparr>))
       \<and> (\<forall>n. count_names names (attendance_records sess) n =
             (if n \<noteq> ''Unknown'' \<and> n \<in> set names
              then Some ((case attendance_records sess n of None \<Rightarrow> 0 | Some c \<Rightarrow> c)
                          + int (count_list names n))
              else attendance_records sess n))
       \<and> record_recognition_results_for_class (replicate m ''Unknown'') k (run calls) =
           ((Recorded (attendance_records sess), 200), run calls)"
proof -
  have k: "k \<noteq> []" using assms(1) by (rule run_key_nonempty)
  have same: "(run calls)(k \<mapsto> sess) = run calls"
    using assms(1) by (simp add: map_upd_triv)
  show ?thesis
    using assms k same
    by (simp add: record_recognition_results_for_class_def Let_def count_names_eq
                  count_names_Unknown)
qed

theorem record_counts_all_but_Unknown_witness:
  "run example_calls ''CS101'' = Some example_session
   \<and> is_active example_session
   \<and> fst (record_recognition_results_for_class [''alice'', ''Unknown'', ''alice'', ''carol'']
             ''CS101'' (run example_calls)) =
       (Recorded (count_names [''alice'', ''Unknown'', ''alice'', ''carol'']
                    (attendance_records example_session)), 200)
   \<and> count_names [''alice'', ''Unknown'', ''alice'', ''carol'']
        (attendance_records example_session) ''alice'' = Some 3
   \<and> count_names [''alice'', ''Unknown'', ''alice'', ''carol'']
        (attendance_records example_session) ''bob'' = Some 1
   \<and> count_names [''alice'', ''Unknown'', ''alice'', ''carol'']
        (attendance_records example_session) ''carol'' = Some 1
   \<and> count_names [''alice'', ''Unknown'', ''alice'', ''carol'']
        (attendance_records example_session) ''Unknown'' = None
   \<and> record_recognition_results_for_class (replicate 3 ''Unknown'') ''CS101''
        (run example_calls) =
       ((Recorded (attendance_records example_session), 200), run example_calls)"
  using record_counts_all_but_Unknown
          [of example_calls "''CS101''" example_session
              "[''alice'', ''Unknown'', ''alice'', ''carol'']" 3]
  by (simp add: example_run example_session_def)

text \<open>
  Claim C2 as stated fails for the spelling \<open>unknown\<close>: the code compares with
  \<open>Unknown\<close>, so recording \<open>unknown\<close> in a fresh session gives it the counter 1.
\<close>

theorem record_lowercase_unknown_counts:
  "active (run [Start ''CS101'' None 0] ''CS101'')
   \<and> map_option attendance_records (run [Start ''CS101'' None 0] ''CS101'') = Some Map.empty
   \<and> map_option attendance_records
       (snd (record_recognition_results_for_class [''unknown''] ''CS101''
               (run [Start ''CS101'' None 0])) ''CS101'')
      = Some [''unknown'' \<mapsto> 1]"
  by (simp add: run_def registry_defs Let_def)

text \<open>
  Claim C4, as amended: for every class id other than the empty string. \<open>stop_session\<close>
  answers \<open>inactive\<close> (400) exactly when the class id has no session or an inactive
  one, and then leaves the registry as it is. For an active session it answers the
  summary of the live state (name, counters, start time, the clock reading as end time,
  and the whole seconds between the two, 0 without a start time) and the slot becomes
  the inactive empty one. The summary is a value of its own: the counters in it are those
  of the session that was stopped, whatever the slot holds afterwards.
\<close>

theorem stop_session_nonempty_key:
  assumes "k \<noteq> []"
  shows "(fst (stop_session k now S) = (Inactive, 400)
            \<longleftrightarrow> (S k = None \<or> (\<exists>sess. S k = Some sess \<and> \<not> is_active sess)))
       \<and> (fst (stop_session k now S) = (Inactive, 400) \<longrightarrow> snd (stop_session k now S) = S)
       \<and> (\<forall>sess. S k = Some sess \<and> is_active sess \<longrightarrow>
            stop_session k now S =
              ((Summary \<lparr>s_session_active = False,
                         s_session_name = session_name sess,
                         s_class_id = k,
                         s_attendance_records = attendance_records sess,
                         s_start_time = start_time sess,
                         s_end_time = now,
                         s_duration_seconds =
                           (case start_time sess of
                              Some st \<Rightarrow> whole_seconds (now - st) | None \<Rightarrow> 0)\<rparr>, 200),
               S(k \<mapsto> \<lparr>is_active = False, session_name = None,
                         attendance_records = Map.empty, start_time = None\<rparr>)))"
  using assms
  by (auto simp: stop_session_def cleared_def Let_def split: option.splits)

theorem stop_session_nonempty_key_witness:
  "''CS101'' \<noteq> []
   \<and> (Map.empty :: sessions) ''CS101'' = None
   \<and> fst (stop_session ''CS101'' 7500000 Map.empty) = (Inactive, 400)
   \<and> snd (stop_session ''CS101'' 7500000 Map.empty) = Map.empty
   \<and> run example_calls ''CS101'' = Some example_session
   \<and> is_active example_session
   \<and> stop_session ''CS101'' 7500000 (run example_calls) =
       ((Summary \<lparr>s_session_active = False,
                  s_session_name = Some ''CS101_session'',
                  s_class_id = ''CS101'',
                  s_attendance_records = [''alice'' \<mapsto> 1, ''bob'' \<mapsto> 1],
                  s_start_time = Some 0,
                  s_end_time = 7500000,
                  s_duration_seconds = 7\<rparr>, 200),
        (run example_calls)
          (''CS101'' \<mapsto> \<lparr>is_active = False, session_name = None,
                          attendance_records = Map.empty, start_time = None\<rparr>))"
  using stop_session_nonempty_key [of "''CS101''" 7500000 Map.empty]
        stop_session_nonempty_key [of "''CS101''" 7500000 "run example_calls"]
  by (simp add: example_run example_session_def whole_seconds_def)

text \<open>
  Claim C4 as stated fails for the empty class id: it has no session, and \<open>stop_session\<close>
  answers that the class id is required, not \<open>inactive\<close>.
\<close>

theorem stop_session_empty_key:
  "(Map.empty :: sessions) [] = None
   \<and> stop_session [] 0 Map.empty = ((Class_id_required, 400), Map.empty)
   \<and> fst (stop_session [] 0 Map.empty) \<noteq> (Inactive, 400)"
  by (simp add: stop_session_def)

text \<open>
  Claim C7. In the registry reached by any sequence of start, stop, record and clear
  calls from the empty registry, every slot that is not active has no counters and no
  start time.
\<close>

theorem inactive_slot_empty:
  "run calls k = Some sess \<and> \<not> is_active sess \<longrightarrow>
     attendance_records sess = Map.empty \<and> start_time sess = None"
  using run_inactive_empty [of calls] unfolding inactive_empty_def by blast

theorem inactive_slot_empty_witness:
  "run (example_calls @ [Stop ''CS101'' 7500000, Record [''alice''] ''CS101'']) ''CS101''
     = Some cleared
   \<and> \<not> is_active cleared
   \<and> attendance_records cleared = Map.empty \<and> start_time cleared = None"
  using inactive_slot_empty
          [of "example_calls @ [Stop ''CS101'' 7500000, Record [''alice''] ''CS101'']"
              "''CS101''" cleared]
  by (simp add: run_append example_run example_session_def stop_session_def
        record_recognition_results_for_class_def cleared_def Let_def)

section \<open>Properties of the matcher\<close>

lemma best_of_append: "best_of (xs @ ys) best = best_of ys (best_of xs best)"
  by (induction xs best rule: best_of.induct) simp_all

lemma scan_person_best_of:
  "scan_person sim q person es best = best_of (map (\<lambda>e. (person, sim q e)) es) best"
  by (induction sim q person es best rule: scan_person.induct) (simp_all add: Let_def)

lemma scan_db_best_of: "scan_db sim q db best = best_of (scores sim q db) best"
  by (induction sim q db best rule: scan_db.induct)
     (simp_all add: scores_def scan_person_best_of best_of_append)

lemma best_of_snd:
  "snd (best_of xs (bm, bs)) = Max (insert bs (snd ` set xs))"
proof (induction xs arbitrary: bm bs)
  case Nil
  then show ?case by simp
next
  case (Cons x xs)
  obtain p s where x: "x = (p, s)" by (cases x)
  let ?S = "snd ` set xs"
  have fin: "finite ?S" by simp
  show ?case
  proof (cases "s > bs")
    case True
    have "s \<le> Max (insert s ?S)" using fin by (intro Max_ge) auto
    then have le: "bs \<le> Max (insert s ?S)" using True by linarith
    have "Max (insert bs (insert s ?S)) = max bs (Max (insert s ?S))"
      by (rule Max_insert) (use fin in auto)
    then have "Max (insert bs (insert s ?S)) = Max (insert s ?S)"
      using le by (simp only: max_def if_True)
    then show ?thesis using True x Cons.IH [of p s] by (simp add: insert_commute)
  next
    case False
    have "bs \<le> Max (insert bs ?S)" using fin by (intro Max_ge) auto
    then have le: "s \<le> Max (insert bs ?S)" using False by linarith
    have "Max (insert s (insert bs ?S)) = max s (Max (insert bs ?S))"
      by (rule Max_insert) (use fin in auto)
    then have "Max (insert s (insert bs ?S)) = Max (insert bs ?S)"
      using le by (simp only: max_def if_True)
    then show ?thesis using False x Cons.IH [of bm bs] by (simp add: insert_commute)
  qed
qed

lemma first_with_skip: "s \<noteq> m \<Longrightarrow> first_with m ((p, s) # xs) = first_with m xs"
  by (simp add: first_with_def)

lemma first_with_here: "first_with m ((p, m) # xs) = p"
  by (simp add: first_with_def)

lemma best_of_fst:
  "fst (best_of xs (bm, bs)) =
     (if \<forall>s \<in> snd ` set xs. s \<le> bs then bm
      else first_with (Max (snd ` set xs)) xs)"
proof (induction xs arbitrary: bm bs)
  case Nil
  then show ?case by simp
next
  case (Cons x xs)
  obtain p s where x: "x = (p, s)" by (cases x)
  let ?S = "snd ` set xs"
  have fin: "finite ?S" by simp
  show ?case
  proof (cases "s > bs")
    case True
    show ?thesis
    proof (cases "\<forall>t \<in> ?S. t \<le> s")
      case all: True
      have "Max (insert s ?S) = s"
        using all fin by (intro Max_eqI) auto
      then show ?thesis using True all x Cons.IH [of p s] by (simp add: first_with_here)
    next
      case some: False
      then obtain t where t: "t \<in> ?S" "s < t" by (auto simp: not_le)
      have ne: "?S \<noteq> {}" using t by auto
      have "t \<le> Max ?S" using t(1) fin by (intro Max_ge)
      then have lt: "s < Max ?S" using t(2) by linarith
      have "Max (insert s ?S) = max s (Max ?S)" using fin ne by (rule Max_insert)
      then have m: "Max (insert s ?S) = Max ?S" using lt by (simp add: max_def)
      have "s \<noteq> Max ?S" using lt by simp
      then show ?thesis using True some x Cons.IH [of p s] m
        by (auto simp: first_with_skip)
    qed
  next
    case False
    show ?thesis
    proof (cases "\<forall>t \<in> ?S. t \<le> bs")
      case all: True
      then show ?thesis using False x Cons.IH [of bm bs] by simp
    next
      case some: False
      then obtain t where t: "t \<in> ?S" "bs < t" by (auto simp: not_le)
      have ne: "?S \<noteq> {}" using t by auto
      have "t \<le> Max ?S" using t(1) fin by (intro Max_ge)
      then have lt: "s < Max ?S" using t(2) False by linarith
      have "Max (insert s ?S) = max s (Max ?S)" using fin ne by (rule Max_insert)
      then have m: "Max (insert s ?S) = Max ?S" using lt by (simp add: max_def)
      have "s \<noteq> Max ?S" using lt by simp
      then show ?thesis using False some x Cons.IH [of bm bs] m
        by (auto simp: first_with_skip)
    qed
  qed
qed

lemma scan_db_result:
  assumes "scores sim q db \<noteq> []"
  shows "scan_db sim q db (''Unknown'', 0) =
           (if best_similarity sim q db \<le> 0 then (''Unknown'', 0)
            else (first_with (best_similarity sim q db) (scores sim q db),
                  best_similarity sim q db))"
proof -
  let ?xs = "scores sim q db"
  let ?S = "snd ` set ?xs"
  have fin: "finite ?S" and ne: "?S \<noteq> {}" using assms by auto
  have all: "(\<forall>s \<in> ?S. s \<le> 0) \<longleftrightarrow> Max ?S \<le> 0"
    using fin ne by simp
  have "Max (insert 0 ?S) = max 0 (Max ?S)" using fin ne by (rule Max_insert)
  then have sc: "snd (best_of ?xs (''Unknown'', 0)) = max 0 (Max ?S)"
    by (simp add: best_of_snd)
  have id: "fst (best_of ?xs (''Unknown'', 0)) =
            (if Max ?S \<le> 0 then ''Unknown'' else first_with (Max ?S) ?xs)"
    using all by (simp add: best_of_fst)
  show ?thesis
    using sc id
    by (cases "best_of ?xs (''Unknown'', 0)")
       (auto simp: scan_db_best_of best_similarity_def max_def)
qed

lemma sqrt_25: "sqrt 25 = 5"
proof -
  have "sqrt (5\<^sup>2) = 5" by simp
  then show ?thesis by simp
qed

lemma sqrt_169: "sqrt 169 = 13"
proof -
  have "sqrt (13\<^sup>2) = 13" by simp
  then show ?thesis by simp
qed

lemmas cosine_defs = cosine_similarity_def dot_def norm_or_one_def sqrt_25 sqrt_169

lemma example_scores_tie:
  "scores cosine_similarity [3, 4] [(''alice'', [[1, 0]]), (''bob'', [[2, 0]])] =
     [(''alice'', 6 / 10), (''bob'', 6 / 10)]"
  by (simp add: scores_def cosine_defs)

lemma example_scores_low:
  "scores cosine_similarity [1, 0] [(''alice'', [[5, 12]]), (''bob'', [[- 1, 0]])] =
     [(''alice'', 5 / 13), (''bob'', - 1)]"
  by (simp add: scores_def cosine_defs)

lemma example_scores_negative:
  "scores cosine_similarity [1, 0] [(''bob'', [[- 1, 0]])] = [(''bob'', - 1)]"
  by (simp add: scores_def cosine_defs)

text \<open>
  Claim C3. For any similarity function, query and store with at least one reference
  vector: if the best similarity over all reference vectors of all identities is at least
  the threshold 0.6, equality included, \<open>find_match\<close> answers that best similarity
  together with the identity of the first reference vector, in the order of the scan,
  that reaches it.
\<close>

theorem find_match_threshold_inclusive:
  assumes "scores sim q db \<noteq> []"
    and "best_similarity sim q db \<ge> SIMILARITY_THRESHOLD"
  shows "find_match sim q db =
           (first_with (best_similarity sim q db) (scores sim q db), best_similarity sim q db)"
  using assms(2) scan_db_result [OF assms(1)]
  by (simp add: find_match_def SIMILARITY_THRESHOLD_def)

theorem find_match_threshold_inclusive_witness:
  "scores cosine_similarity [3, 4] [(''alice'', [[1, 0]]), (''bob'', [[2, 0]])] \<noteq> []
   \<and> best_similarity cosine_similarity [3, 4] [(''alice'', [[1, 0]]), (''bob'', [[2, 0]])]
       = SIMILARITY_THRESHOLD
   \<and> best_similarity cosine_similarity [3, 4] [(''alice'', [[1, 0]]), (''bob'', [[2, 0]])]
       \<ge> SIMILARITY_THRESHOLD
   \<and> find_match cosine_similarity [3, 4] [(''alice'', [[1, 0]]), (''bob'', [[2, 0]])]
       = (''alice'', 6 / 10)"
  using find_match_threshold_inclusive
          [of cosine_similarity "[3, 4]" "[(''alice'', [[1, 0]]), (''bob'', [[2, 0]])]"]
  by (simp add: example_scores_tie best_similarity_def first_with_def SIMILARITY_THRESHOLD_def)

text \<open>
  Claim C5, as amended. For any similarity function, query and store with at least one
  reference vector whose best similarity is below the threshold 0.6, \<open>find_match\<close>
  answers \<open>Unknown\<close> with the best similarity when that is positive, and with 0 when
  no similarity is positive: the score starts at 0 and only a greater similarity
  replaces it.
\<close>

theorem find_match_below_threshold:
  assumes "scores sim q db \<noteq> []"
    and "best_similarity sim q db < SIMILARITY_THRESHOLD"
  shows "find_match sim q db = (''Unknown'', max 0 (best_similarity sim q db))"
  using assms(2) scan_db_result [OF assms(1)]
  by (simp add: find_match_def SIMILARITY_THRESHOLD_def max_def)

theorem find_match_below_threshold_witness:
  "scores cosine_similarity [1, 0] [(''alice'', [[5, 12]]), (''bob'', [[- 1, 0]])] \<noteq> []
   \<and> best_similarity cosine_similarity [1, 0] [(''alice'', [[5, 12]]), (''bob'', [[- 1, 0]])]
       < SIMILARITY_THRESHOLD
   \<and> find_match cosine_similarity [1, 0] [(''alice'', [[5, 12]]), (''bob'', [[- 1, 0]])]
       = (''Unknown'', 5 / 13)"
  using find_match_below_threshold
          [of cosine_similarity "[1, 0]" "[(''alice'', [[5, 12]]), (''bob'', [[- 1, 0]])]"]
  by (simp add: example_scores_low best_similarity_def SIMILARITY_THRESHOLD_def)

text \<open>
  Claim C5 as stated fails for negative similarities: against a store whose only
  reference vector is opposite to the query the best similarity is -1, and
  \<open>find_match\<close> answers \<open>Unknown\<close> with the score 0.
\<close>

theorem find_match_negative_score:
  "scores cosine_similarity [1, 0] [(''bob'', [[- 1, 0]])] \<noteq> []
   \<and> best_similarity cosine_similarity [1, 0] [(''bob'', [[- 1, 0]])] = - 1
   \<and> best_similarity cosine_similarity [1, 0] [(''bob'', [[- 1, 0]])] < SIMILARITY_THRESHOLD
   \<and> find_match cosine_similarity [1, 0] [(''bob'', [[- 1, 0]])] = (''Unknown'', 0)
   \<and> find_match cosine_similarity [1, 0] [(''bob'', [[- 1, 0]])]
       \<noteq> (''Unknown'', best_similarity cosine_similarity [1, 0] [(''bob'', [[- 1, 0]])])"
  by (simp add: example_scores_negative best_similarity_def SIMILARITY_THRESHOLD_def
        find_match_def cosine_defs)

section \<open>Properties of the attendance percentages\<close>

text \<open>The computation of the stop-session route is total and classifies at 25 percent.\<close>

lemma app_attendance_zero_duration:
  "attendance_percentage (app_attendance_record student_name time 0) = 0
   \<and> status (app_attendance_record student_name time 0) = ''absent''"
  by (simp add: app_attendance_record_def)

lemma app_attendance_positive_duration:
  assumes "0 < duration"
  shows "status (app_attendance_record student_name time duration) = ''present''
           \<longleftrightarrow> real_of_int time / real_of_int duration \<ge> 25 / 100"
  using assms by (simp add: app_attendance_record_def Let_def field_simps)

lemma csv_rows_zero_length:
  "attendance \<noteq> [] \<Longrightarrow> csv_rows attendance 0 = Inl ZeroDivisionError"
  by (cases attendance) auto

lemma csv_rows_nonzero_length:
  "session_length \<noteq> 0 \<Longrightarrow> \<exists>rows. csv_rows attendance session_length = Inr rows"
  by (induction attendance) (auto simp: Let_def)

text \<open>
  Claim C6 fails on \<open>save_attendance\<close>: for a session length of 0 and one person
  with a presence of 35.5 the division raises \<open>ZeroDivisionError\<close>, where the claim
  asks for the percentage 0 and the status absent.
\<close>

theorem save_attendance_zero_length_raises:
  "save_attendance [(''Ahmed'', 71 / 2)] 0 True = Inl ZeroDivisionError"
  by (simp add: save_attendance_def)

section \<open>Properties of the embeddings store\<close>

lemma map_of_filter_keys:
  "map_of (filter (\<lambda>(name, vectors). name \<in> A) xs) k = (if k \<in> A then map_of xs k else None)"
  by (induction xs) auto

lemma process_entry_keys:
  "fst ` set (process_entry N e db) \<subseteq> insert (entry_name e) (fst ` set db)"
  by (cases e) auto

lemma process_entry_keeps:
  "k \<in> fst ` set db \<Longrightarrow> k \<in> fst ` set (process_entry N e db)"
  by (cases e) auto

lemma process_entry_lookup:
  "k \<in> fst ` set db \<Longrightarrow> map_of (process_entry N e db) k = map_of db k"
  by (cases e) (auto simp: map_add_def split: option.splits dest: weak_map_of_SomeI map_of_SomeD)

lemma fold_process_stored:
  "k \<in> fst ` set db \<Longrightarrow> map_of (fold (process_entry N) listing db) k = map_of db k"
  by (induction listing arbitrary: db) (simp_all add: process_entry_keeps process_entry_lookup)

lemma fold_process_new:
  assumes "Folder person images \<in> set listing"
    and "distinct (map entry_name listing)"
    and "person \<notin> fst ` set db"
  shows "map_of (fold (process_entry N) listing db) person = Some (encode_person N images)"
  using assms
proof (induction listing arbitrary: db)
  case Nil
  then show ?case by simp
next
  case (Cons e listing)
  show ?case
  proof (cases "e = Folder person images")
    case True
    have "map_of db person = None"
      using Cons.prems(3) by (simp add: map_of_eq_None_iff)
    then have "map_of (db @ [(person, encode_person N images)]) person = Some (encode_person N images)"
      by (simp add: map_add_def)
    then show ?thesis
      using True Cons.prems(3) by (simp add: fold_process_stored)
  next
    case False
    then have mem: "Folder person images \<in> set listing" using Cons.prems(1) by simp
    then have "entry_name (Folder person images) \<in> entry_name ` set listing" by (rule imageI)
    then have "entry_name e \<noteq> person" using Cons.prems(2) by auto
    then have "person \<notin> fst ` set (process_entry N e db)"
      using process_entry_keys [of N e db] Cons.prems(3) by auto
    then show ?thesis using Cons.IH [OF mem] Cons.prems(2) by simp
  qed
qed

lemma example_encode_person: "encode_person (Suc 0) [example_image] = [2, 3]"
  by (simp add: encode_person_def encode_image_def example_image_def image_suffixes_def
        endswith_def lower_def lower_char_def)

text \<open>
  Claim C9, as amended. For every identity that is a folder of the catalog (the names of
  a directory listing being distinct), the store that the update procedure saves maps the
  identity to the sequence it had in the stored file when the file has the identity, with
  no vector derived again, and to the freshly derived sequence when the file does not have
  it or there is no file.
\<close>

theorem manage_embeddings_keeps_or_adds:
  assumes "Folder person images \<in> set listing"
    and "distinct (map entry_name listing)"
  shows "map_of (manage_embeddings listing N_AUG stored) person =
           (case map_of (case stored of None \<Rightarrow> [] | Some db \<Rightarrow> db) person of
              Some vectors \<Rightarrow> Some vectors
            | None \<Rightarrow> Some (encode_person N_AUG images))"
proof -
  define db where "db = (case stored of None \<Rightarrow> [] | Some db \<Rightarrow> db)"
  have "entry_name (Folder person images) \<in> entry_name ` set listing"
    using assms(1) by (rule imageI)
  then have cur: "person \<in> set (map entry_name listing)" by simp
  have res: "manage_embeddings listing N_AUG stored =
               filter (\<lambda>(name, vectors). name \<in> set (map entry_name listing))
                 (fold (process_entry N_AUG) listing db)"
    by (simp add: manage_embeddings_def db_def)
  show ?thesis
  proof (cases "map_of db person")
    case None
    then have "person \<notin> fst ` set db" by (simp add: map_of_eq_None_iff)
    then have "map_of (fold (process_entry N_AUG) listing db) person
                 = Some (encode_person N_AUG images)"
      using assms by (rule fold_process_new [rotated 2])
    then show ?thesis
      using None cur unfolding res db_def [symmetric]
      by (simp add: map_of_filter_keys)
  next
    case (Some vectors)
    then have "person \<in> fst ` set db" by (meson domI domIff map_of_eq_None_iff)
    then have "map_of (fold (process_entry N_AUG) listing db) person = map_of db person"
      by (rule fold_process_stored)
    then show ?thesis
      using Some cur unfolding res db_def [symmetric]
      by (simp add: map_of_filter_keys)
  qed
qed

theorem manage_embeddings_keeps_or_adds_witness:
  "Folder ''alice'' [example_image] \<in> set example_listing
   \<and> distinct (map entry_name example_listing)
   \<and> map_of (manage_embeddings example_listing 1 (Some [(''alice'', [7])])) ''alice''
       = Some [7]
   \<and> map_of (manage_embeddings example_listing 1 (Some [(''bob'', [9])])) ''alice''
       = Some [2, 3]
   \<and> map_of (manage_embeddings example_listing 1 None) ''alice'' = Some [2, 3]"
  using manage_embeddings_keeps_or_adds
          [of "''alice''" "[example_image]" example_listing 1 "Some [(''alice'', [7])]"]
        manage_embeddings_keeps_or_adds
          [of "''alice''" "[example_image]" example_listing 1 "Some [(''bob'', [9])]"]
        manage_embeddings_keeps_or_adds
          [of "''alice''" "[example_image]" example_listing 1 None]
  by (simp add: example_listing_def example_encode_person)

text \<open>
  Claim C9 as stated fails for an identity the store already has: its folder is skipped,
  and the store keeps the old sequence, here 7, where the freshly derived one is 2, 3.
\<close>

theorem manage_embeddings_no_replace:
  "Folder ''alice'' [example_image] \<in> set example_listing
   \<and> encode_person 1 [example_image] = [2, 3]
   \<and> manage_embeddings example_listing 1 (Some [(''alice'', [7])]) = [(''alice'', [7])]
   \<and> map_of (manage_embeddings example_listing 1 (Some [(''alice'', [7])])) ''alice''
       \<noteq> Some (encode_person 1 [example_image])"
  by (simp add: example_listing_def example_encode_person manage_embeddings_def)

section \<open>Properties of the student folders\<close>

lemma example_normalised: "replace_spaces (strip '' Ahmed Ali '') = ''Ahmed_Ali''"
  by (simp add: replace_spaces_def strip_def is_space_def)

lemma example_folder:
  "path_join ''Smart Attendance System/Images'' ''Ahmed_Ali''
     = ''Smart Attendance System/Images/Ahmed_Ali''"
  by (simp add: path_join_def)

text \<open>
  Claim C10. When the students directory exists and the folder of the normalised name
  (surrounding whitespace stripped, spaces replaced by underscores) is a directory in it,
  \<open>add_student_from_api\<close> answers that the student already exists (400) and leaves the
  file system as it is, whatever the images are; and \<open>remove_student\<close>, for the same
  input name, answers for the same normalised name and removes that same folder with all
  that lies below it.
\<close>

theorem add_existing_student_rejected:
  assumes "path_exists f STUDENTS_DIR"
    and "path_join STUDENTS_DIR (replace_spaces (strip name)) \<in> dirs f"
  shows "add_student_from_api b64decode name image_data_list f =
           (Inr (Already_exists (replace_spaces (strip name)), 400), f)
       \<and> remove_student name f =
           (Inr (Removed (replace_spaces (strip name)), 200),
            \<lparr>dirs = {d \<in> dirs f.
                      \<not> below (path_join STUDENTS_DIR (replace_spaces (strip name))) d},
             files = (\<lambda>q. if below (path_join STUDENTS_DIR (replace_spaces (strip name))) q
                           then None else files f q)\<rparr>)"
  using assms
  by (simp add: add_student_from_api_def remove_student_def rmtree_def path_exists_def Let_def)

theorem add_existing_student_rejected_witness:
  "path_exists example_fs STUDENTS_DIR
   \<and> path_join STUDENTS_DIR (replace_spaces (strip '' Ahmed Ali '')) \<in> dirs example_fs
   \<and> add_student_from_api (\<lambda>s. Some s) '' Ahmed Ali '' [''data:image/jpeg;base64,AAAA'']
        example_fs
       = (Inr (Already_exists ''Ahmed_Ali'', 400), example_fs)
   \<and> fst (remove_student '' Ahmed Ali '' example_fs) = Inr (Removed ''Ahmed_Ali'', 200)"
  using add_existing_student_rejected
          [of example_fs "'' Ahmed Ali ''" "\<lambda>s. Some s" "[''data:image/jpeg;base64,AAAA'']"]
  by (simp add: example_normalised example_folder example_fs_def path_exists_def
        STUDENTS_DIR_def)

end
